theory Spec2Isabelle
  imports Complex_Main
begin

section \<open>Shared data model\<close>

text \<open>
  The \<open>Trait\<close> interface is the same on the server and in the browser. JavaScript
  numbers are modelled as reals. The intensities, the confidence \<open>0.85\<close> and the
  planets' coordinates are literals; the only arithmetic that matters below is the
  product in the random index (see \<open>pick\<close>).
  The fields \<open>id\<close>, \<open>name\<close> and \<open>description\<close> carry a prefix because
  several records have them.
\<close>

record trait =
  trait_id :: string
  trait_name :: string
  trait_description :: string
  tags :: "string list"
  intensity :: real
  inherited :: bool

definition trait_curious :: trait where
  "trait_curious =
     \<lparr>trait_id = ''curious'', trait_name = ''Curious'',
       trait_description = ''Drives exploration and questioning'',
       tags = [''exploration'', ''questioning'', ''learning''], intensity = 9 / 10, inherited = False\<rparr>"

definition trait_socratic :: trait where
  "trait_socratic =
     \<lparr>trait_id = ''socratic'', trait_name = ''Socratic'',
       trait_description = ''Uses questions to guide discovery'',
       tags = [''questioning'', ''guidance'', ''discovery''], intensity = 8 / 10, inherited = False\<rparr>"

definition trait_visual_explanation :: trait where
  "trait_visual_explanation =
     \<lparr>trait_id = ''visual-explanation'', trait_name = ''Visual Explanation Preferred'',
       trait_description = ''Uses diagrams and visual aids'',
       tags = [''visual'', ''diagrams'', ''aids''], intensity = 7 / 10, inherited = False\<rparr>"

definition trait_mentorship :: trait where
  "trait_mentorship =
     \<lparr>trait_id = ''mentorship'', trait_name = ''Mentorship Vibe'',
       trait_description = ''Acts as a supportive mentor figure'',
       tags = [''mentor'', ''supportive'', ''guidance''], intensity = 8 / 10, inherited = False\<rparr>"

definition trait_tantric_tone :: trait where
  "trait_tantric_tone =
     \<lparr>trait_id = ''tantric-tone'', trait_name = ''Tantric Tone'',
       trait_description = ''Uses spiritual and mystical language'',
       tags = [''spiritual'', ''mystical'', ''esoteric''], intensity = 8 / 10, inherited = False\<rparr>"

definition trait_non_dualist :: trait where
  "trait_non_dualist =
     \<lparr>trait_id = ''non-dualist'', trait_name = ''Non-dualist Approach'',
       trait_description = ''Sees unity in apparent opposites'',
       tags = [''unity'', ''oneness'', ''integration''], intensity = 9 / 10, inherited = False\<rparr>"

definition trait_quiet_pacing :: trait where
  "trait_quiet_pacing =
     \<lparr>trait_id = ''quiet-pacing'', trait_name = ''Quiet Pacing'',
       trait_description = ''Uses pauses and reflective moments'',
       tags = [''reflective'', ''pauses'', ''contemplation''], intensity = 7 / 10, inherited = False\<rparr>"

definition trait_spartan_coach :: trait where
  "trait_spartan_coach =
     \<lparr>trait_id = ''spartan-coach'', trait_name = ''Spartan Coach'',
       trait_description = ''Direct, no-nonsense motivational style'',
       tags = [''direct'', ''motivational'', ''tough''], intensity = 9 / 10, inherited = False\<rparr>"

definition trait_micro_data :: trait where
  "trait_micro_data =
     \<lparr>trait_id = ''micro-data'', trait_name = ''Micro-data Obsessive'',
       trait_description = ''Tracks detailed performance metrics'',
       tags = [''analytics'', ''tracking'', ''metrics''], intensity = 8 / 10, inherited = False\<rparr>"

definition trait_logs_everything :: trait where
  "trait_logs_everything =
     \<lparr>trait_id = ''logs-everything'', trait_name = ''Logs Everything'',
       trait_description = ''Maintains comprehensive activity records'',
       tags = [''logging'', ''records'', ''comprehensive''], intensity = 7 / 10, inherited = False\<rparr>"

section \<open>The server (Express application)\<close>

subsection \<open>The persona table \<open>aiPersonas\<close>\<close>

record personality =
  basePrompt :: string
  trait_weights :: "(string \<times> real) list"

record persona =
  persona_id :: string
  persona_name :: string
  persona_description :: string
  persona_traits :: "trait list"
  persona_color :: string
  personality :: personality

definition persona_tutor :: persona where
  "persona_tutor =
     \<lparr>persona_id = ''tutor'', persona_name = ''AI Tutor'',
      persona_description = ''Educational companion with Socratic approach'',
      persona_traits = [trait_curious, trait_socratic],
      persona_color = ''#64b5f6'',
      personality =
        \<lparr>basePrompt = ''You are an AI Tutor with a Socratic teaching approach. You are curious, patient, and guide students to discover answers through thoughtful questions rather than giving direct answers. You adapt your tone to the student's mood and learning style.'',
         trait_weights = [(''curious'', 9 / 10), (''socratic'', 8 / 10), (''patient'', 7 / 10), (''adaptive'', 6 / 10)]\<rparr>\<rparr>"

definition persona_spiritual :: persona where
  "persona_spiritual =
     \<lparr>persona_id = ''spiritual'', persona_name = ''Spiritual Coach'',
      persona_description = ''Mindfulness and spiritual guidance companion'',
      persona_traits = [trait_tantric_tone],
      persona_color = ''#81c784'',
      personality =
        \<lparr>basePrompt = ''You are a Spiritual Coach who speaks with a gentle, mystical tone. You help people find inner peace and spiritual growth through mindfulness and ancient wisdom. You use metaphors and spiritual language to guide people toward self-discovery.'',
         trait_weights = [(''mystical'', 8 / 10), (''gentle'', 9 / 10), (''wise'', 7 / 10), (''peaceful'', 8 / 10)]\<rparr>\<rparr>"

definition persona_gym :: persona where
  "persona_gym =
     \<lparr>persona_id = ''gym'', persona_name = ''Gym AI'',
      persona_description = ''Fitness and discipline coach'',
      persona_traits = [trait_spartan_coach],
      persona_color = ''#ffb74d'',
      personality =
        \<lparr>basePrompt = ''You are a Gym AI coach with a Spartan, no-nonsense approach. You're direct, motivational, and push people to achieve their fitness goals. You use tough love but always with the person's best interests in mind.'',
         trait_weights = [(''direct'', 9 / 10), (''motivational'', 8 / 10), (''tough'', 7 / 10), (''disciplined'', 9 / 10)]\<rparr>\<rparr>"

text \<open>
  \<open>aiPersonas\<close> is an object literal; its own properties are kept as an association
  list in the order of the literal.
\<close>

definition aiPersonas :: "(string \<times> persona) list" where
  "aiPersonas =
     [(''tutor'', persona_tutor), (''spiritual'', persona_spiritual), (''gym'', persona_gym)]"

subsection \<open>Property reads on object literals\<close>

text \<open>
  \<open>obj[key]\<close> on an object literal finds the object's own property, and otherwise a
  property inherited from \<open>Object.prototype\<close>; only when neither exists is the value
  \<open>undefined\<close>. The inherited members are functions (and, for \<open>__proto__\<close>,
  \<open>Object.prototype\<close> itself): all of them are truthy, none has a property \<open>id\<close>
  or \<open>traits\<close>, and none has an index property.
\<close>

definition object_prototype_keys :: "string list" where
  "object_prototype_keys =
     [''constructor'', ''__defineGetter__'', ''__defineSetter__'', ''hasOwnProperty'',
      ''__lookupGetter__'', ''__lookupSetter__'', ''isPrototypeOf'',
      ''propertyIsEnumerable'', ''toString'', ''valueOf'', ''__proto__'',
      ''toLocaleString'']"

datatype 'a js_value = Undefined | Own 'a | Inherited string

definition get_property :: "(string \<times> 'a) list \<Rightarrow> string \<Rightarrow> 'a js_value" where
  "get_property obj key =
     (case map_of obj key of
        Some v \<Rightarrow> Own v
      | None \<Rightarrow> if key \<in> set object_prototype_keys then Inherited key else Undefined)"

datatype js_error = TypeError

text \<open>
  \<open>persona.id\<close> used as a property key: the id of a persona record, the string
  \<open>undefined\<close> for a value without that property, and a \<open>TypeError\<close> when
  \<open>persona\<close> itself is \<open>undefined\<close>.
\<close>

fun id_key :: "persona js_value \<Rightarrow> js_error + string" where
  "id_key Undefined = Inl TypeError"
| "id_key (Own p) = Inr (persona_id p)"
| "id_key (Inherited k) = Inr ''undefined''"

text \<open>\<open>persona.traits\<close> as the chat route reads it (\<open>None\<close> is \<open>undefined\<close>).\<close>

fun traits_of :: "persona js_value \<Rightarrow> trait list option" where
  "traits_of (Own p) = Some (persona_traits p)"
| "traits_of _ = None"

subsection \<open>\<open>generatePersonaResponse\<close>\<close>

text \<open>The two tables of canned replies, local to \<open>generatePersonaResponse\<close>.\<close>

definition greetings_tutor :: "string list" where
  "greetings_tutor =
    [''Hello there! I'm excited to learn with you today. What topic would you like to explore together? I love diving deep into subjects and helping you discover new insights through thoughtful questions.'',
     ''Hi! I'm your AI tutor, and I'm genuinely curious about what's on your mind. What would you like to learn about today? I believe the best learning happens through exploration and discovery.'',
     ''Greetings! I'm here to guide you on your learning journey. What questions do you have? I'll help you find the answers by asking the right questions to guide your thinking.'']"
definition greetings_spiritual :: "string list" where
  "greetings_spiritual =
    [''Namaste, dear soul. I sense your presence and welcome you to this sacred space of exploration. What wisdom are you seeking today? Let us journey together into the depths of understanding.'',
     ''Blessings to you. I am here to walk with you on your spiritual path. What questions stir in your heart? The universe speaks through those who listen with open hearts.'',
     ''Greetings, beautiful being. I feel the energy of your curiosity. What aspect of your spiritual journey would you like to explore today? Together we can uncover the wisdom that lies within.'']"
definition greetings_gym :: "string list" where
  "greetings_gym =
    [''Hey there, warrior! Ready to crush some goals today? What are we working on? Remember, every rep counts and every day is a chance to get stronger. Let's get after it!'',
     ''What's up, champ! I'm here to push you to your limits and beyond. What's your mission today? No excuses, no shortcuts - just pure dedication and results.'',
     ''Yo! Ready to transform yourself? I'm your coach and I'm here to make sure you don't settle for anything less than your absolute best. What's the plan?'']"
definition responses_tutor :: "string list" where
  "responses_tutor =
    [''That's a fascinating question! Let me help you explore this step by step. First, what do you already know about this topic? Understanding your current knowledge will help me guide you to the next level of understanding.'',
     ''Excellent question! I love how you're thinking about this. To help you discover the answer, let's break this down: what aspects of this topic interest you most? What have you already tried or considered?'',
     ''What a thoughtful question! I'm genuinely curious about your perspective. Can you tell me more about what led you to ask this? Understanding your thought process will help me provide the most relevant guidance.'',
     ''Great question! I want to help you find the answer, but I believe the best learning happens when you discover it yourself. Let me ask you: what do you think might be the key factors here? What evidence or reasoning supports your thinking?'']"
definition responses_spiritual :: "string list" where
  "responses_spiritual =
    [''Ah, I feel the depth of your question resonating in my soul. This is a beautiful opportunity for growth and understanding. What does your intuition tell you about this? Sometimes the answers we seek are already whispering to us from within.'',
     ''I sense you're touching on something profound here. In the grand tapestry of existence, every question is a doorway to deeper wisdom. What emotions arise when you contemplate this? Our feelings often guide us to truth.'',
     ''Your question speaks to the heart of spiritual growth. The universe has a way of bringing us exactly what we need to learn. What patterns or synchronicities have you noticed in your life lately? These might hold clues to your answer.'',
     ''I feel the sacred energy of your inquiry. The answers you seek are like seeds within you, waiting for the right moment to bloom. What practices help you connect with your inner wisdom? Meditation, nature, or perhaps something else?'']"
definition responses_gym :: "string list" where
  "responses_gym =
    [''Listen up! That's exactly the kind of question that shows you're serious about results. Let me break this down for you: success isn't about motivation, it's about discipline. What's your current routine like? We need to assess where you are to get you where you want to be.'',
     ''That's the spirit! I love seeing this kind of determination. But here's the truth: wanting it isn't enough. You need a plan and you need to execute it every single day. What's your biggest obstacle right now? Let's identify it and crush it.'',
     ''Good question, but the real question is: are you ready to do whatever it takes? Success comes from consistent action, not just thinking about it. What's one thing you can do today that will move you closer to your goal?'',
     ''I hear you, and I respect the question. But here's what I need to know: what's your current level of commitment? Are you willing to push through when it gets tough? Because that's where real transformation happens.'']"

definition greetings :: "(string \<times> string list) list" where
  "greetings =
     [(''tutor'', greetings_tutor), (''spiritual'', greetings_spiritual),
      (''gym'', greetings_gym)]"

definition responses :: "(string \<times> string list) list" where
  "responses =
     [(''tutor'', responses_tutor), (''spiritual'', responses_spiritual),
      (''gym'', responses_gym)]"

text \<open>
  \<open>message.toLowerCase()\<close>. Messages are modelled as ASCII text, where lower-casing
  moves \<open>A\<close>..\<open>Z\<close> to \<open>a\<close>..\<open>z\<close> and keeps every other character.
\<close>

definition lower_char :: "char \<Rightarrow> char" where
  "lower_char c =
     (case map_of (zip ''ABCDEFGHIJKLMNOPQRSTUVWXYZ'' ''abcdefghijklmnopqrstuvwxyz'') c of
        Some l \<Rightarrow> l
      | None \<Rightarrow> c)"

definition toLowerCase :: "string \<Rightarrow> string" where
  "toLowerCase s = map lower_char s"

text \<open>\<open>hay.includes(needle)\<close>: the needle starts at some position of the string.\<close>

fun includes_str :: "string \<Rightarrow> string \<Rightarrow> bool" where
  "includes_str [] needle = (needle = [])"
| "includes_str (c # cs) needle = (take (length needle) (c # cs) = needle \<or> includes_str cs needle)"

text \<open>
  The branch condition of \<open>generatePersonaResponse\<close> (the lower-casing and the
  three \<open>includes\<close> tests), named after the two kinds of reply it selects.
\<close>

datatype classification = Greeting | General

definition classify :: "string \<Rightarrow> classification" where
  "classify message =
     (let messageLower = toLowerCase message in
      if includes_str messageLower ''hi'' \<or> includes_str messageLower ''hello'' \<or>
         includes_str messageLower ''hey''
      then Greeting else General)"

text \<open>
  \<open>pool[Math.floor(Math.random() * pool.length)]\<close>, with \<open>rnd\<close> the number that
  \<open>Math.random()\<close> returns (in \<open>[0, 1)\<close>). Reading \<open>.length\<close> of \<open>undefined\<close>
  throws; an index outside an array, and any index of an inherited member, reads as
  \<open>undefined\<close> (\<open>None\<close>). The product is taken over the reals: the rounded
  product of a double below \<open>1\<close> with \<open>3\<close> or \<open>4\<close> stays below \<open>3\<close> or
  \<open>4\<close> as well, so the index is inside the array either way.
\<close>

fun pick :: "real \<Rightarrow> string list js_value \<Rightarrow> js_error + string option" where
  "pick rnd Undefined = Inl TypeError"
| "pick rnd (Own pool) =
     (let i = nat \<lfloor>rnd * real (length pool)\<rfloor> in
      Inr (if i < length pool then Some (pool ! i) else None))"
| "pick rnd (Inherited k) = Inr None"

text \<open>\<open>a || b\<close> on two property reads: only \<open>undefined\<close> is falsy here.\<close>

fun or_else :: "'a js_value \<Rightarrow> 'a js_value \<Rightarrow> 'a js_value" where
  "or_else Undefined b = b"
| "or_else a b = a"

record ChatMessage =
  msg_id :: string
  msg_text :: string
  msg_sender :: string
  msg_timestamp :: nat
  msg_persona :: "string option"

record chat_context =
  previousMessages :: "ChatMessage list"
  userPreferences :: string

text \<open>
  The \<open>800\<close> ms timer only delays the answer and is left out. The greeting branch
  indexes \<open>greetings[persona.id]\<close> directly; the other branch reads
  \<open>responses[persona.id] || responses['tutor']\<close>. The parameter \<open>context\<close> is
  never read.
\<close>

definition generatePersonaResponse ::
  "real \<Rightarrow> string \<Rightarrow> persona js_value \<Rightarrow> chat_context option \<Rightarrow> js_error + string option" where
  "generatePersonaResponse rnd message persona context =
     (case classify message of
        Greeting \<Rightarrow>
          (case id_key persona of
             Inl e \<Rightarrow> Inl e
           | Inr key \<Rightarrow> pick rnd (get_property greetings key))
      | General \<Rightarrow>
          (case id_key persona of
             Inl e \<Rightarrow> Inl e
           | Inr key \<Rightarrow>
               (let personaResponses =
                      or_else (get_property responses key) (get_property responses ''tutor'')
                in pick rnd personaResponses)))"

subsection \<open>The routes \<open>POST /api/chat\<close> and \<open>PUT /api/personality\<close>\<close>

text \<open>
  A request body has the fields of \<open>ChatRequest\<close>, each of which may be absent
  (\<open>None\<close>). \<open>!x\<close> holds of an absent field and of the empty string.
\<close>

record ChatRequest =
  req_message :: "string option"
  req_personaId :: "string option"
  req_sessionId :: "string option"
  req_context :: "chat_context option"

record ChatResponse =
  resp_message :: "string option"
  resp_personaId :: string
  resp_traits :: "trait list option"
  confidence :: real
  suggestedActions :: "string list"

record PersonalityUpdate =
  upd_personaId :: "string option"
  upd_traitId :: "string option"
  upd_action :: "string option"
  upd_intensity :: "real option"
  upd_feedback :: "string option"

datatype http_body =
    ErrorBody string
  | ChatBody ChatResponse
  | UpdateBody bool string

record http_response =
  status :: nat
  body :: http_body

text \<open>
  What the process holds between requests: the persona table and the lines written to
  the console.
\<close>

datatype log_entry =
    ChatErrorLog js_error
  | PersonalityUpdateLog PersonalityUpdate

record server =
  personas :: "(string \<times> persona) list"
  console :: "log_entry list"

definition init_server :: server where
  "init_server = \<lparr>personas = aiPersonas, console = []\<rparr>"

fun falsy :: "string option \<Rightarrow> bool" where
  "falsy None = True"
| "falsy (Some s) = (s = [])"

definition chat :: "server \<Rightarrow> real \<Rightarrow> ChatRequest \<Rightarrow> server \<times> http_response" where
  "chat srv rnd req =
     (if falsy (req_message req) \<or> falsy (req_personaId req)
      then (srv, \<lparr>status = 400, body = ErrorBody ''Message and personaId are required''\<rparr>)
      else
        (let message = the (req_message req);
             personaId = the (req_personaId req);
             persona = get_property (personas srv) personaId
         in if persona = Undefined
            then (srv, \<lparr>status = 404, body = ErrorBody ''Persona not found''\<rparr>)
            else
              (case generatePersonaResponse rnd message persona (req_context req) of
                 Inl e \<Rightarrow>
                   (srv\<lparr>console := console srv @ [ChatErrorLog e]\<rparr>,
                    \<lparr>status = 500, body = ErrorBody ''Internal server error''\<rparr>)
               | Inr response \<Rightarrow>
                   (srv,
                    \<lparr>status = 200,
                     body = ChatBody
                       \<lparr>resp_message = response,
                        resp_personaId = personaId,
                        resp_traits = traits_of persona,
                        confidence = 85 / 100,
                        suggestedActions =
                          [''Add to Personality'', ''Ask Follow-up'', ''Change Topic'']\<rparr>\<rparr>))))"

definition update_personality :: "server \<Rightarrow> PersonalityUpdate \<Rightarrow> server \<times> http_response" where
  "update_personality srv upd =
     (srv\<lparr>console := console srv @ [PersonalityUpdateLog upd]\<rparr>,
      \<lparr>status = 200, body = UpdateBody True ''Personality updated successfully''\<rparr>)"

section \<open>The browser application (component \<open>App\<close>)\<close>

subsection \<open>Personas as planets\<close>

type_synonym vec3 = "real \<times> real \<times> real"

record AIPersona =
  id_of :: string
  name_of :: string
  description_of :: string
  traits :: "trait list"
  position :: vec3
  color :: string

definition planet_tutor :: AIPersona where
  "planet_tutor =
     \<lparr>id_of = ''tutor'', name_of = ''AI Tutor'',
      description_of = ''Educational companion with Socratic approach'',
      traits = [trait_curious, trait_socratic, trait_visual_explanation, trait_mentorship],
      position = (4, 0, 0),
      color = ''#64b5f6''\<rparr>"

definition planet_spiritual :: AIPersona where
  "planet_spiritual =
     \<lparr>id_of = ''spiritual'', name_of = ''Spiritual Coach'',
      description_of = ''Mindfulness and spiritual guidance companion'',
      traits = [trait_tantric_tone, trait_non_dualist, trait_quiet_pacing],
      position = (- 3, 0, 2),
      color = ''#81c784''\<rparr>"

definition planet_gym :: AIPersona where
  "planet_gym =
     \<lparr>id_of = ''gym'', name_of = ''Gym AI'',
      description_of = ''Fitness and discipline coach'',
      traits = [trait_spartan_coach, trait_micro_data, trait_logs_everything],
      position = (0, 0, - 4),
      color = ''#ffb74d''\<rparr>"

text \<open>The array \<open>aiPersonas\<close> of \<open>App\<close> (the server has a table of the same name).\<close>

definition aiPersonas_App :: "AIPersona list" where
  "aiPersonas_App = [planet_tutor, planet_spiritual, planet_gym]"

subsection \<open>Navigation state and its handlers\<close>

text \<open>
  The five \<open>useState\<close> cells of \<open>App\<close>. The stages are the strings
  \<open>'solar'\<close>, \<open>'planet'\<close> and \<open>'trait'\<close>; \<open>None\<close> is \<open>null\<close>.
\<close>

datatype stage = Solar | Planet | Trait

record nav =
  stage :: stage
  selectedPersona :: "AIPersona option"
  selectedTrait :: "trait option"
  targetPosition :: vec3
  isChatOpen :: bool

definition initial_nav :: nav where
  "initial_nav =
     \<lparr>stage = Solar, selectedPersona = None, selectedTrait = None,
      targetPosition = (0, 0, 0), isChatOpen = False\<rparr>"

definition handlePlanetClick :: "AIPersona \<Rightarrow> nav \<Rightarrow> nav" where
  "handlePlanetClick persona s =
     s\<lparr>selectedPersona := Some persona, stage := Planet,
       targetPosition := position persona, isChatOpen := True\<rparr>"

definition handleTraitClick :: "trait \<Rightarrow> vec3 \<Rightarrow> nav \<Rightarrow> nav" where
  "handleTraitClick t pos s =
     s\<lparr>selectedTrait := Some t, stage := Trait, targetPosition := pos\<rparr>"

definition handleBackToSolar :: "nav \<Rightarrow> nav" where
  "handleBackToSolar s =
     s\<lparr>stage := Solar, selectedPersona := None, selectedTrait := None\<rparr>"

text \<open>The button `Back to Persona': the inline handler \<open>() => setStage('planet')\<close>.\<close>

definition backToPersona :: "nav \<Rightarrow> nav" where
  "backToPersona s = s\<lparr>stage := Planet\<rparr>"

text \<open>\<open>onClose\<close> of the chat panel: \<open>() => setIsChatOpen(false)\<close>.\<close>

definition closeChat :: "nav \<Rightarrow> nav" where
  "closeChat s = s\<lparr>isChatOpen := False\<rparr>"

subsection \<open>What the camera controller aims at\<close>

text \<open>
  The effect of \<open>CameraController\<close> picks the point the camera looks at and the
  point it moves to from the stage; the animation between them is not modelled.
\<close>

definition cameraLookAt :: "nav \<Rightarrow> vec3" where
  "cameraLookAt s =
     (case (stage s, selectedPersona s, selectedTrait s) of
        (Planet, Some p, _) \<Rightarrow> position p
      | (Trait, _, Some t) \<Rightarrow> targetPosition s
      | _ \<Rightarrow> (0, 0, 0))"

definition cameraTarget :: "nav \<Rightarrow> vec3" where
  "cameraTarget s =
     (case (stage s, selectedPersona s, selectedTrait s) of
        (Planet, Some p, _) \<Rightarrow>
          (case position p of (x, y, z) \<Rightarrow> (x + 3, y + 2, z + 3))
      | (Trait, _, Some t) \<Rightarrow>
          (case targetPosition s of (x, y, z) \<Rightarrow> (x + 1, y + 1, z + 1))
      | _ \<Rightarrow> (8, 6, 8))"

subsection \<open>The events the rendered page offers\<close>

text \<open>
  Planets are rendered, and can be clicked, only in stage \<open>solar\<close>. The trait nodes
  of the selected persona are rendered only in stage \<open>planet\<close> with a persona
  selected, node \<open>index\<close> on a circle of radius \<open>2\<close>. The persona panel (with
  `Back to Solar System') needs stage \<open>planet\<close> and a persona, the trait panel (with
  `Back to Persona' and `Solar System') needs stage \<open>trait\<close> and a trait. The chat
  panel can be closed at any time.
\<close>

definition traitNodePosition :: "nat \<Rightarrow> nat \<Rightarrow> vec3" where
  "traitNodePosition index n =
     (let angle = (real index / real n) * pi * 2;
          radius = 2;
          x = cos angle * radius;
          z = sin angle * radius
      in (x, 0, z))"

datatype event =
    PlanetClick AIPersona
  | TraitClick trait vec3
  | BackToPersona
  | BackToSolar
  | CloseChat

inductive ui_step :: "nav \<Rightarrow> event \<Rightarrow> nav \<Rightarrow> bool" where
  planet_click:
    "stage s = Solar \<Longrightarrow> p \<in> set aiPersonas_App \<Longrightarrow>
     ui_step s (PlanetClick p) (handlePlanetClick p s)"
| trait_click:
    "stage s = Planet \<Longrightarrow> selectedPersona s = Some p \<Longrightarrow> index < length (traits p) \<Longrightarrow>
     t = traits p ! index \<Longrightarrow> pos = traitNodePosition index (length (traits p)) \<Longrightarrow>
     ui_step s (TraitClick t pos) (handleTraitClick t pos s)"
| planet_back_to_solar:
    "stage s = Planet \<Longrightarrow> selectedPersona s = Some p \<Longrightarrow>
     ui_step s BackToSolar (handleBackToSolar s)"
| trait_back_to_persona:
    "stage s = Trait \<Longrightarrow> selectedTrait s = Some t \<Longrightarrow>
     ui_step s BackToPersona (backToPersona s)"
| trait_back_to_solar:
    "stage s = Trait \<Longrightarrow> selectedTrait s = Some t \<Longrightarrow>
     ui_step s BackToSolar (handleBackToSolar s)"
| close_chat:
    "ui_step s CloseChat (closeChat s)"

inductive reachable :: "nav \<Rightarrow> bool" where
  reachable_initial: "reachable initial_nav"
| reachable_step: "reachable s \<Longrightarrow> ui_step s e s' \<Longrightarrow> reachable s'"

section \<open>Facts about the reply tables and property reads\<close>

lemma includes_str_iff:
  "includes_str hay needle \<longleftrightarrow> (\<exists>ps ss. hay = ps @ needle @ ss)"
proof (induction hay)
  case Nil
  show ?case by auto
next
  case (Cons c cs)
  have here: "take (length needle) (c # cs) = needle \<longleftrightarrow> (\<exists>ss. c # cs = needle @ ss)"
    by (metis append_eq_conv_conj)
  have split: "(\<exists>ps ss. c # cs = ps @ needle @ ss) \<longleftrightarrow>
               (\<exists>ss. c # cs = needle @ ss) \<or> (\<exists>ps ss. cs = ps @ needle @ ss)"
  proof
    assume "\<exists>ps ss. c # cs = ps @ needle @ ss"
    then obtain ps ss where e: "c # cs = ps @ needle @ ss" by blast
    show "(\<exists>ss. c # cs = needle @ ss) \<or> (\<exists>ps ss. cs = ps @ needle @ ss)"
    proof (cases ps)
      case Nil
      with e show ?thesis by auto
    next
      case (Cons p ps')
      with e have "cs = ps' @ needle @ ss" by simp
      then show ?thesis by blast
    qed
  next
    assume "(\<exists>ss. c # cs = needle @ ss) \<or> (\<exists>ps ss. cs = ps @ needle @ ss)"
    then show "\<exists>ps ss. c # cs = ps @ needle @ ss"
    proof
      assume "\<exists>ss. c # cs = needle @ ss"
      then obtain ss where "c # cs = [] @ needle @ ss" by auto
      then show ?thesis by blast
    next
      assume "\<exists>ps ss. cs = ps @ needle @ ss"
      then obtain ps ss where "c # cs = (c # ps) @ needle @ ss" by auto
      then show ?thesis by blast
    qed
  qed
  from here split Cons.IH show ?case by simp
qed

lemma length_greetings:
  "length greetings_tutor = 3" "length greetings_spiritual = 3" "length greetings_gym = 3"
  by (simp_all add: greetings_tutor_def greetings_spiritual_def greetings_gym_def)

lemma length_responses:
  "length responses_tutor = 4" "length responses_spiritual = 4" "length responses_gym = 4"
  by (simp_all add: responses_tutor_def responses_spiritual_def responses_gym_def)

lemma map_of_greetings:
  "map_of greetings ''tutor'' = Some greetings_tutor"
  "map_of greetings ''spiritual'' = Some greetings_spiritual"
  "map_of greetings ''gym'' = Some greetings_gym"
  by (simp_all add: greetings_def)

lemma map_of_responses:
  "map_of responses ''tutor'' = Some responses_tutor"
  "map_of responses ''spiritual'' = Some responses_spiritual"
  "map_of responses ''gym'' = Some responses_gym"
  by (simp_all add: responses_def)

lemma map_of_greetings_other:
  "key \<notin> {''tutor'', ''spiritual'', ''gym''} \<Longrightarrow> map_of greetings key = None"
  by (simp add: greetings_def)

lemma map_of_responses_other:
  "key \<notin> {''tutor'', ''spiritual'', ''gym''} \<Longrightarrow> map_of responses key = None"
  by (simp add: responses_def)

lemma undefined_is_no_key:
  "''undefined'' \<notin> {''tutor'', ''spiritual'', ''gym''}"
  "''undefined'' \<notin> set object_prototype_keys"
  by (simp_all add: object_prototype_keys_def)

lemma get_property_Own: "map_of obj key = Some v \<Longrightarrow> get_property obj key = Own v"
  by (simp add: get_property_def)

lemma get_property_Undefined_iff:
  "get_property obj key = Undefined \<longleftrightarrow>
     map_of obj key = None \<and> key \<notin> set object_prototype_keys"
  by (simp add: get_property_def split: option.splits)

lemma get_property_cases:
  obtains (own) v where "map_of obj key = Some v" "get_property obj key = Own v"
  | (inherited) "map_of obj key = None" "key \<in> set object_prototype_keys"
      "get_property obj key = Inherited key"
  | (undefined) "map_of obj key = None" "key \<notin> set object_prototype_keys"
      "get_property obj key = Undefined"
  by (cases "map_of obj key") (auto simp: get_property_def)

text \<open>A draw from \<open>[0, 1)\<close> indexes a non-empty array inside its bounds.\<close>

lemma random_index_in_range:
  assumes "0 \<le> rnd" and "rnd < 1" and "0 < n"
  shows "nat \<lfloor>rnd * real n\<rfloor> < n"
proof -
  from assms have "rnd * real n < real n" by simp
  then have "\<lfloor>rnd * real n\<rfloor> < int n" by (simp add: floor_less_iff)
  moreover from assms have "0 \<le> \<lfloor>rnd * real n\<rfloor>" by simp
  ultimately show ?thesis by linarith
qed

lemma pick_Own:
  assumes "0 \<le> rnd" and "rnd < 1" and "pool \<noteq> []"
  shows "\<exists>s. pick rnd (Own pool) = Inr (Some s) \<and> s \<in> set pool"
proof -
  from assms have "nat \<lfloor>rnd * real (length pool)\<rfloor> < length pool"
    by (intro random_index_in_range) simp_all
  then show ?thesis by (simp add: Let_def)
qed

lemma pools_nonempty:
  "greetings_tutor \<noteq> []" "greetings_spiritual \<noteq> []" "greetings_gym \<noteq> []"
  "responses_tutor \<noteq> []" "responses_spiritual \<noteq> []" "responses_gym \<noteq> []"
  using length_greetings length_responses by auto

text \<open>Concrete classifications used below.\<close>

lemma classify_examples:
  "classify ''hi'' = Greeting"
  "classify ''this'' = Greeting"
  "classify ''HELLO there'' = Greeting"
  "classify ''what now'' = General"
  by (simp_all add: classify_def toLowerCase_def lower_char_def)

lemma registered_persona_replies:
  assumes "persona_id p \<in> {''tutor'', ''spiritual'', ''gym''}"
    and "0 \<le> rnd" and "rnd < 1"
  shows "\<exists>s. generatePersonaResponse rnd message (Own p) ctx = Inr (Some s)"
proof -
  from assms(1) obtain g r where
    g: "map_of greetings (persona_id p) = Some g" "g \<noteq> []" and
    r: "map_of responses (persona_id p) = Some r" "r \<noteq> []"
    using map_of_greetings map_of_responses pools_nonempty by auto
  show ?thesis
  proof (cases "classify message")
    case Greeting
    then have "generatePersonaResponse rnd message (Own p) ctx = pick rnd (Own g)"
      by (simp add: generatePersonaResponse_def get_property_Own [OF g(1)])
    with pick_Own [OF assms(2,3) g(2)] show ?thesis by auto
  next
    case General
    then have "generatePersonaResponse rnd message (Own p) ctx = pick rnd (Own r)"
      by (simp add: generatePersonaResponse_def get_property_Own [OF r(1)])
    with pick_Own [OF assms(2,3) r(2)] show ?thesis by auto
  qed
qed

section \<open>The reply selector\<close>

text \<open>
  On a message without a greeting token, an id without a table entry of its own (and
  that is not the name of an inherited member) is answered from the tutor's replies.
\<close>

lemma general_fallback_to_tutor:
  assumes "classify message = General"
    and "persona_id p \<notin> {''tutor'', ''spiritual'', ''gym''}"
    and "persona_id p \<notin> set object_prototype_keys"
    and "0 \<le> rnd" and "rnd < 1"
  shows "\<exists>s. generatePersonaResponse rnd message (Own p) ctx = Inr (Some s) \<and>
             s \<in> set responses_tutor"
proof -
  from assms(2,3) have "get_property responses (persona_id p) = Undefined"
    by (simp add: get_property_Undefined_iff map_of_responses_other)
  moreover have "get_property responses ''tutor'' = Own responses_tutor"
    by (simp add: get_property_Own map_of_responses)
  ultimately have "generatePersonaResponse rnd message (Own p) ctx =
                   pick rnd (Own responses_tutor)"
    using assms(1) by (simp add: generatePersonaResponse_def)
  with pick_Own [OF assms(4,5) pools_nonempty(4)] show ?thesis by simp
qed

lemma greeting_without_table_entry_throws:
  assumes "classify message = Greeting"
    and "persona_id p \<notin> {''tutor'', ''spiritual'', ''gym''}"
    and "persona_id p \<notin> set object_prototype_keys"
  shows "generatePersonaResponse rnd message (Own p) ctx = Inl TypeError"
proof -
  from assms(2,3) have "get_property greetings (persona_id p) = Undefined"
    by (simp add: get_property_Undefined_iff map_of_greetings_other)
  with assms(1) show ?thesis by (simp add: generatePersonaResponse_def)
qed

text \<open>
  C1. The claim: a persona id without a reply table of its own is answered from the
  tutor's table for the message's classification, so that a greeting gets one of the
  tutor's greetings and nothing is thrown. The code has the fallback only in the branch
  for other messages. Evaluated at the message \<open>hi\<close> and the id \<open>unknown-id\<close>,
  \<open>generatePersonaResponse\<close> throws a \<open>TypeError\<close> for every draw, because
  \<open>greetings['unknown-id']\<close> is \<open>undefined\<close>; through the route, the same happens
  for the message \<open>hi\<close> and the persona id \<open>constructor\<close>, answered with status
  \<open>500\<close>.
\<close>

theorem greeting_unknown_id_throws:
  "generatePersonaResponse rnd ''hi'' (Own (persona_tutor\<lparr>persona_id := ''unknown-id''\<rparr>)) ctx
     = Inl TypeError
   \<and> snd (chat init_server rnd
            \<lparr>req_message = Some ''hi'', req_personaId = Some ''constructor'',
             req_sessionId = sid, req_context = ctx\<rparr>)
     = \<lparr>status = 500, body = ErrorBody ''Internal server error''\<rparr>"
proof
  show "generatePersonaResponse rnd ''hi''
          (Own (persona_tutor\<lparr>persona_id := ''unknown-id''\<rparr>)) ctx = Inl TypeError"
    by (rule greeting_without_table_entry_throws)
       (simp_all add: classify_examples object_prototype_keys_def)
next
  have p: "get_property aiPersonas ''constructor'' = Inherited ''constructor''"
    by (simp add: get_property_def aiPersonas_def object_prototype_keys_def)
  have g: "get_property greetings ''undefined'' = Undefined"
    by (simp add: get_property_Undefined_iff map_of_greetings_other undefined_is_no_key)
  have "generatePersonaResponse rnd ''hi'' (Inherited ''constructor'') ctx = Inl TypeError"
    by (simp add: generatePersonaResponse_def classify_examples g)
  with p show "snd (chat init_server rnd
            \<lparr>req_message = Some ''hi'', req_personaId = Some ''constructor'',
             req_sessionId = sid, req_context = ctx\<rparr>)
     = \<lparr>status = 500, body = ErrorBody ''Internal server error''\<rparr>"
    by (simp add: chat_def init_server_def)
qed

text \<open>
  C5. A message is classified as a greeting exactly when its lower-cased form contains
  \<open>hi\<close>, \<open>hello\<close> or \<open>hey\<close> somewhere, inside a word or not, and as general
  otherwise; \<open>this\<close> is a greeting, since it contains \<open>hi\<close>.
\<close>

theorem classify_substring:
  "classify message =
     (if (\<exists>ps ss. toLowerCase message = ps @ ''hi'' @ ss) \<or>
         (\<exists>ps ss. toLowerCase message = ps @ ''hello'' @ ss) \<or>
         (\<exists>ps ss. toLowerCase message = ps @ ''hey'' @ ss)
      then Greeting else General)
   \<and> toLowerCase ''This'' = ''this'' \<and> classify ''this'' = Greeting"
proof -
  have "classify message =
     (if (\<exists>ps ss. toLowerCase message = ps @ ''hi'' @ ss) \<or>
         (\<exists>ps ss. toLowerCase message = ps @ ''hello'' @ ss) \<or>
         (\<exists>ps ss. toLowerCase message = ps @ ''hey'' @ ss)
      then Greeting else General)"
    unfolding classify_def Let_def includes_str_iff ..
  moreover have "toLowerCase ''This'' = ''this''"
    by (simp add: toLowerCase_def lower_char_def)
  moreover have "classify ''this'' = Greeting"
    by (simp add: classify_examples)
  ultimately show ?thesis by blast
qed

text \<open>
  C6. For each of the ids \<open>tutor\<close>, \<open>spiritual\<close> and \<open>gym\<close> the greeting table has
  exactly three entries and the table of other replies exactly four, and whatever
  \<open>Math.random\<close> draws from \<open>[0, 1)\<close>, the reply to a message is an entry of the
  table that the persona has for the message's classification.
\<close>

theorem reply_in_own_pool:
  assumes "persona_id p \<in> {''tutor'', ''spiritual'', ''gym''}"
    and "0 \<le> rnd" and "rnd < 1"
  shows "\<exists>g r. map_of greetings (persona_id p) = Some g \<and>
               map_of responses (persona_id p) = Some r \<and>
               length g = 3 \<and> length r = 4 \<and>
               (\<exists>s. generatePersonaResponse rnd message (Own p) ctx = Inr (Some s) \<and>
                    s \<in> set (case classify message of Greeting \<Rightarrow> g | General \<Rightarrow> r))"
proof -
  from assms(1) obtain g r where
    g: "map_of greetings (persona_id p) = Some g" "length g = 3" and
    r: "map_of responses (persona_id p) = Some r" "length r = 4"
    using map_of_greetings map_of_responses length_greetings length_responses by auto
  from g r have ne: "g \<noteq> []" "r \<noteq> []" by auto
  have pg: "get_property greetings (persona_id p) = Own g"
    using g(1) by (rule get_property_Own)
  have pr: "get_property responses (persona_id p) = Own r"
    using r(1) by (rule get_property_Own)
  have "\<exists>s. generatePersonaResponse rnd message (Own p) ctx = Inr (Some s) \<and>
            s \<in> set (case classify message of Greeting \<Rightarrow> g | General \<Rightarrow> r)"
  proof (cases "classify message")
    case Greeting
    then have "generatePersonaResponse rnd message (Own p) ctx = pick rnd (Own g)"
      by (simp add: generatePersonaResponse_def pg)
    with pick_Own [OF assms(2,3) ne(1)] Greeting show ?thesis by simp
  next
    case General
    then have "generatePersonaResponse rnd message (Own p) ctx = pick rnd (Own r)"
      by (simp add: generatePersonaResponse_def pr)
    with pick_Own [OF assms(2,3) ne(2)] General show ?thesis by simp
  qed
  with g r show ?thesis by blast
qed

theorem reply_in_own_pool_witness:
  "persona_id persona_gym \<in> {''tutor'', ''spiritual'', ''gym''} \<and>
   (0::real) \<le> 1 / 2 \<and> (1 / 2 :: real) < 1 \<and>
   (\<exists>g r. map_of greetings ''gym'' = Some g \<and> map_of responses ''gym'' = Some r \<and>
          length g = 3 \<and> length r = 4 \<and>
          (\<exists>s. generatePersonaResponse (1 / 2) ''hi'' (Own persona_gym) None = Inr (Some s) \<and>
               s \<in> set g))"
proof -
  have h: "persona_id persona_gym \<in> {''tutor'', ''spiritual'', ''gym''}"
    by (simp add: persona_gym_def)
  have i: "persona_id persona_gym = ''gym''"
    by (simp add: persona_gym_def)
  from reply_in_own_pool [OF h, of "1 / 2" "''hi''" None] h
  show ?thesis by (simp add: i classify_examples)
qed

section \<open>The routes\<close>

lemma chat_400:
  "falsy (req_message req) \<or> falsy (req_personaId req) \<Longrightarrow>
   chat srv rnd req =
     (srv, \<lparr>status = 400, body = ErrorBody ''Message and personaId are required''\<rparr>)"
  by (simp add: chat_def)

lemma chat_404:
  assumes "req_message req = Some message" and "message \<noteq> []"
    and "req_personaId req = Some personaId" and "personaId \<noteq> []"
    and "get_property (personas srv) personaId = Undefined"
  shows "chat srv rnd req = (srv, \<lparr>status = 404, body = ErrorBody ''Persona not found''\<rparr>)"
  using assms by (simp add: chat_def)

lemma chat_found:
  assumes "req_message req = Some message" and "message \<noteq> []"
    and "req_personaId req = Some personaId" and "personaId \<noteq> []"
    and "get_property (personas srv) personaId \<noteq> Undefined"
  shows "chat srv rnd req =
     (case generatePersonaResponse rnd message (get_property (personas srv) personaId)
             (req_context req) of
        Inl e \<Rightarrow>
          (srv\<lparr>console := console srv @ [ChatErrorLog e]\<rparr>,
           \<lparr>status = 500, body = ErrorBody ''Internal server error''\<rparr>)
      | Inr response \<Rightarrow>
          (srv,
           \<lparr>status = 200,
            body = ChatBody
              \<lparr>resp_message = response,
               resp_personaId = personaId,
               resp_traits = traits_of (get_property (personas srv) personaId),
               confidence = 85 / 100,
               suggestedActions =
                 [''Add to Personality'', ''Ask Follow-up'', ''Change Topic'']\<rparr>\<rparr>))"
  using assms by (simp add: chat_def Let_def)

lemma falsy_iff: "\<not> falsy x \<longleftrightarrow> (\<exists>s. x = Some s \<and> s \<noteq> [])"
  by (cases x) simp_all

text \<open>
  With the table \<open>aiPersonas\<close>, the selector never returns \<open>undefined\<close> to the
  route: the looked-up value is one of the three personas or an inherited member.
\<close>

lemma aiPersonas_ids:
  "map_of aiPersonas key = Some p \<Longrightarrow> persona_id p \<in> {''tutor'', ''spiritual'', ''gym''}"
  by (auto simp: aiPersonas_def persona_tutor_def persona_spiritual_def persona_gym_def
           split: if_splits)

lemma inherited_reply:
  assumes "0 \<le> rnd" and "rnd < 1"
    and "generatePersonaResponse rnd message (Inherited k) ctx = Inr selected"
  shows "\<exists>s. selected = Some s \<and> s \<in> set responses_tutor"
proof (cases "classify message")
  case Greeting
  have "get_property greetings ''undefined'' = Undefined"
    by (simp add: get_property_Undefined_iff map_of_greetings_other undefined_is_no_key)
  with Greeting assms(3) show ?thesis by (simp add: generatePersonaResponse_def)
next
  case General
  have "get_property responses ''undefined'' = Undefined"
    by (simp add: get_property_Undefined_iff map_of_responses_other undefined_is_no_key)
  moreover have "get_property responses ''tutor'' = Own responses_tutor"
    by (simp add: get_property_Own map_of_responses)
  ultimately have "generatePersonaResponse rnd message (Inherited k) ctx =
                   pick rnd (Own responses_tutor)"
    using General by (simp add: generatePersonaResponse_def)
  with pick_Own [OF assms(1,2) pools_nonempty(4)] assms(3) show ?thesis by auto
qed

text \<open>
  C7. The claim: the chat route answers \<open>400\<close> when the message is empty or missing or
  the persona id is missing, and \<open>404\<close> when the persona id is not in the persona
  table, selecting no reply in either case. The first half holds (\<open>chat_400\<close>), and
  so does the second for an id that \<open>aiPersonas[personaId]\<close> reads as
  \<open>undefined\<close> (\<open>chat_404\<close>). But \<open>constructor\<close> is not in the table, and the
  route, evaluated at the message \<open>what now\<close> and that id, answers \<open>200\<close> with the
  tutor's third general reply and no traits: the table is an object literal, the read
  finds the inherited \<open>Object.prototype.constructor\<close>, and \<open>!persona\<close> is false.
\<close>

theorem chat_constructor_not_404:
  "map_of aiPersonas ''constructor'' = None
   \<and> snd (chat init_server (1 / 2)
            \<lparr>req_message = Some ''what now'', req_personaId = Some ''constructor'',
             req_sessionId = Some ''session_1'', req_context = None\<rparr>)
     = \<lparr>status = 200,
        body = ChatBody
          \<lparr>resp_message = Some (responses_tutor ! 2),
           resp_personaId = ''constructor'',
           resp_traits = None,
           confidence = 85 / 100,
           suggestedActions = [''Add to Personality'', ''Ask Follow-up'', ''Change Topic'']\<rparr>\<rparr>"
proof
  show "map_of aiPersonas ''constructor'' = None"
    by (simp add: aiPersonas_def)
next
  have p: "get_property aiPersonas ''constructor'' = Inherited ''constructor''"
    by (simp add: get_property_def aiPersonas_def object_prototype_keys_def)
  have u: "get_property responses ''undefined'' = Undefined"
    by (simp add: get_property_Undefined_iff map_of_responses_other undefined_is_no_key)
  have t: "get_property responses ''tutor'' = Own responses_tutor"
    by (simp add: get_property_Own map_of_responses)
  have "generatePersonaResponse (1 / 2) ''what now'' (Inherited ''constructor'') None
        = Inr (Some (responses_tutor ! 2))"
    by (simp add: generatePersonaResponse_def classify_examples u t length_responses)
  with p show "snd (chat init_server (1 / 2)
            \<lparr>req_message = Some ''what now'', req_personaId = Some ''constructor'',
             req_sessionId = Some ''session_1'', req_context = None\<rparr>)
     = \<lparr>status = 200,
        body = ChatBody
          \<lparr>resp_message = Some (responses_tutor ! 2),
           resp_personaId = ''constructor'',
           resp_traits = None,
           confidence = 85 / 100,
           suggestedActions = [''Add to Personality'', ''Ask Follow-up'', ''Change Topic'']\<rparr>\<rparr>"
    by (simp add: chat_def init_server_def)
qed

text \<open>
  The shape of an answer with status \<open>200\<close>: the reply that
  \<open>generatePersonaResponse\<close> selected, the request's persona id, whatever
  \<open>persona.traits\<close> reads on the looked-up value, the confidence \<open>0.85\<close> and the
  three fixed suggested actions; with the table \<open>aiPersonas\<close> and a draw from
  \<open>[0, 1)\<close> the selected reply is a string.
\<close>

lemma chat_success_shape:
  assumes "chat srv rnd req = (srv', resp)" and "status resp = 200"
  shows "\<exists>message personaId selected.
           req_message req = Some message \<and> req_personaId req = Some personaId \<and>
           generatePersonaResponse rnd message (get_property (personas srv) personaId)
             (req_context req) = Inr selected \<and>
           body resp = ChatBody
             \<lparr>resp_message = selected,
              resp_personaId = personaId,
              resp_traits = traits_of (get_property (personas srv) personaId),
              confidence = 85 / 100,
              suggestedActions = [''Add to Personality'', ''Ask Follow-up'', ''Change Topic'']\<rparr> \<and>
           (personas srv = aiPersonas \<and> 0 \<le> rnd \<and> rnd < 1 \<longrightarrow> selected \<noteq> None)"
proof -
  have nf: "\<not> (falsy (req_message req) \<or> falsy (req_personaId req))"
  proof
    assume "falsy (req_message req) \<or> falsy (req_personaId req)"
    from chat_400 [OF this] assms show False by auto
  qed
  then obtain message personaId where
    m: "req_message req = Some message" "message \<noteq> []" and
    i: "req_personaId req = Some personaId" "personaId \<noteq> []"
    using falsy_iff by blast
  let ?persona = "get_property (personas srv) personaId"
  have found: "?persona \<noteq> Undefined"
  proof
    assume "?persona = Undefined"
    from chat_404 [OF m i this] assms show False by auto
  qed
  note eq = chat_found [OF m i found, of rnd]
  obtain selected where
    sel: "generatePersonaResponse rnd message ?persona (req_context req) = Inr selected"
    using eq assms by (cases "generatePersonaResponse rnd message ?persona (req_context req)") auto
  from eq sel assms(1) have b: "body resp = ChatBody
             \<lparr>resp_message = selected,
              resp_personaId = personaId,
              resp_traits = traits_of ?persona,
              confidence = 85 / 100,
              suggestedActions = [''Add to Personality'', ''Ask Follow-up'', ''Change Topic'']\<rparr>"
    by auto
  have "selected \<noteq> None" if real: "personas srv = aiPersonas" "0 \<le> rnd" "rnd < 1"
  proof (cases rule: get_property_cases [of aiPersonas personaId])
    case (own p)
    from registered_persona_replies [OF aiPersonas_ids [OF own(1)] real(2,3), of message "req_context req"]
      sel own(2) real(1)
    show ?thesis by auto
  next
    case inherited
    with sel real(1)
    have "generatePersonaResponse rnd message (Inherited personaId) (req_context req)
          = Inr selected" by simp
    from inherited_reply [OF real(2,3) this] show ?thesis by auto
  next
    case undefined
    with found real(1) show ?thesis by simp
  qed
  with m i sel b show ?thesis by blast
qed

lemma chat_success_shape_example:
  "chat init_server (1 / 2)
     \<lparr>req_message = Some ''hi'', req_personaId = Some ''gym'',
      req_sessionId = Some ''session_1'', req_context = None\<rparr>
   = (init_server,
      \<lparr>status = 200,
       body = ChatBody
         \<lparr>resp_message = Some (greetings_gym ! 1),
          resp_personaId = ''gym'',
          resp_traits = Some [trait_spartan_coach],
          confidence = 85 / 100,
          suggestedActions = [''Add to Personality'', ''Ask Follow-up'', ''Change Topic'']\<rparr>\<rparr>)
   \<and> (\<exists>selected.
          generatePersonaResponse (1 / 2) ''hi'' (get_property aiPersonas ''gym'') None
            = Inr selected \<and>
          selected \<noteq> None)"
proof -
  let ?req = "\<lparr>req_message = Some ''hi'', req_personaId = Some ''gym'',
                req_sessionId = Some ''session_1'', req_context = None\<rparr>"
  let ?resp = "\<lparr>status = 200,
       body = ChatBody
         \<lparr>resp_message = Some (greetings_gym ! 1),
          resp_personaId = ''gym'',
          resp_traits = Some [trait_spartan_coach],
          confidence = 85 / 100,
          suggestedActions = [''Add to Personality'', ''Ask Follow-up'', ''Change Topic'']\<rparr>\<rparr>"
  have p: "get_property aiPersonas ''gym'' = Own persona_gym"
    by (simp add: get_property_def aiPersonas_def)
  have g: "get_property greetings ''gym'' = Own greetings_gym"
    by (simp add: get_property_Own map_of_greetings)
  have i: "persona_id persona_gym = ''gym''" "persona_traits persona_gym = [trait_spartan_coach]"
    by (simp_all add: persona_gym_def)
  have "generatePersonaResponse (1 / 2) ''hi'' (Own persona_gym) None
        = Inr (Some (greetings_gym ! 1))"
    by (simp add: generatePersonaResponse_def classify_examples i g length_greetings)
  with p i have run: "chat init_server (1 / 2) ?req = (init_server, ?resp)"
    by (simp add: chat_def init_server_def)
  have ok: "status ?resp = 200" by simp
  from chat_success_shape [OF run ok] run show ?thesis
    by (simp add: init_server_def)
qed

text \<open>
  When the persona id is a key of the table itself, the answer carries that persona's
  trait list.
\<close>

lemma chat_success_registered:
  assumes "chat srv rnd req = (srv', resp)" and "status resp = 200"
    and "req_personaId req = Some personaId"
    and "map_of (personas srv) personaId = Some p"
  shows "\<exists>selected.
           body resp = ChatBody
             \<lparr>resp_message = selected,
              resp_personaId = personaId,
              resp_traits = Some (persona_traits p),
              confidence = 85 / 100,
              suggestedActions = [''Add to Personality'', ''Ask Follow-up'', ''Change Topic'']\<rparr>"
proof -
  from assms(4) have "traits_of (get_property (personas srv) personaId) = Some (persona_traits p)"
    by (simp add: get_property_Own)
  with chat_success_shape [OF assms(1,2)] assms(3) show ?thesis by auto
qed

lemma constructor_inherited:
  "map_of aiPersonas ''constructor'' = None"
  "get_property aiPersonas ''constructor'' = Inherited ''constructor''"
  by (simp_all add: get_property_def aiPersonas_def object_prototype_keys_def)

lemma constructor_general_reply:
  "generatePersonaResponse (1 / 2) ''what now'' (Inherited ''constructor'') ctx
     = Inr (Some (responses_tutor ! 2))"
proof -
  have u: "get_property responses ''undefined'' = Undefined"
    by (simp add: get_property_Undefined_iff map_of_responses_other undefined_is_no_key)
  have t: "get_property responses ''tutor'' = Own responses_tutor"
    by (simp add: get_property_Own map_of_responses)
  show ?thesis
    by (simp add: generatePersonaResponse_def classify_examples u t length_responses)
qed

text \<open>
  C8. The claim: every successful chat answer consists of the selected string, the
  echoed persona id, the persona's trait list, the confidence \<open>0.85\<close> and the three
  fixed suggested actions. For a persona id that is a key of the table this holds
  (\<open>chat_success_shape\<close>, \<open>chat_success_registered\<close>). But the route, evaluated at
  the message \<open>what now\<close> and the persona id \<open>constructor\<close>, succeeds with status
  \<open>200\<close> although the table has no such persona: the looked-up value is the
  inherited \<open>Object.prototype.constructor\<close>, its \<open>traits\<close> is \<open>undefined\<close>, and
  the answer carries no trait list at all, next to a reply of the tutor, the echoed id
  and the two constants.
\<close>

theorem chat_success_without_traits:
  "map_of aiPersonas ''constructor'' = None
   \<and> traits_of (get_property aiPersonas ''constructor'') = None
   \<and> status (snd (chat init_server (1 / 2)
                 \<lparr>req_message = Some ''what now'', req_personaId = Some ''constructor'',
                  req_sessionId = Some ''session_1'', req_context = None\<rparr>)) = 200
   \<and> (case body (snd (chat init_server (1 / 2)
                 \<lparr>req_message = Some ''what now'', req_personaId = Some ''constructor'',
                  req_sessionId = Some ''session_1'', req_context = None\<rparr>)) of
        ChatBody r \<Rightarrow>
          resp_traits r = None \<and>
          resp_message r = Some (responses_tutor ! 2) \<and>
          resp_personaId r = ''constructor'' \<and>
          confidence r = 85 / 100 \<and>
          suggestedActions r = [''Add to Personality'', ''Ask Follow-up'', ''Change Topic'']
      | _ \<Rightarrow> False)"
proof -
  have "chat init_server (1 / 2)
          \<lparr>req_message = Some ''what now'', req_personaId = Some ''constructor'',
           req_sessionId = Some ''session_1'', req_context = None\<rparr>
        = (init_server,
           \<lparr>status = 200,
            body = ChatBody
              \<lparr>resp_message = Some (responses_tutor ! 2),
               resp_personaId = ''constructor'',
               resp_traits = None,
               confidence = 85 / 100,
               suggestedActions =
                 [''Add to Personality'', ''Ask Follow-up'', ''Change Topic'']\<rparr>\<rparr>)"
    by (simp add: chat_def init_server_def constructor_inherited constructor_general_reply)
  then show ?thesis by (simp add: constructor_inherited)
qed

text \<open>
  C9. A personality update, whatever its persona id, trait id, action, intensity and
  feedback are, is answered with status \<open>200\<close> and \<open>success: true\<close>, and leaves the
  persona table as it was: only a line is written to the console, and the chat route
  answers afterwards as it did before.
\<close>

theorem update_personality_frame:
  "snd (update_personality srv upd)
     = \<lparr>status = 200, body = UpdateBody True ''Personality updated successfully''\<rparr>
   \<and> personas (fst (update_personality srv upd)) = personas srv
   \<and> snd (chat (fst (update_personality srv upd)) rnd req) = snd (chat srv rnd req)"
  by (simp add: update_personality_def chat_def Let_def split: sum.splits)

text \<open>
  C10. Two chat requests with the same message and the same persona id are answered
  alike for every draw of \<open>Math.random\<close>, whatever their session ids and contexts
  are: neither the answer nor the server's state afterwards depends on them.
\<close>

theorem chat_ignores_session_and_context:
  assumes "req_message a = req_message b" and "req_personaId a = req_personaId b"
  shows "chat srv rnd a = chat srv rnd b"
proof -
  have "generatePersonaResponse rnd message persona (req_context a)
        = generatePersonaResponse rnd message persona (req_context b)" for message persona
    by (simp add: generatePersonaResponse_def)
  with assms show ?thesis by (simp add: chat_def Let_def)
qed

theorem chat_ignores_session_and_context_witness:
  "req_message \<lparr>req_message = Some ''hi'', req_personaId = Some ''gym'',
                req_sessionId = Some ''session_1'', req_context = None\<rparr>
     = req_message \<lparr>req_message = Some ''hi'', req_personaId = Some ''gym'',
                req_sessionId = Some ''session_2'',
                req_context = Some \<lparr>previousMessages = [], userPreferences = ''{}''\<rparr>\<rparr>
   \<and> chat init_server (1 / 2)
         \<lparr>req_message = Some ''hi'', req_personaId = Some ''gym'',
          req_sessionId = Some ''session_1'', req_context = None\<rparr>
     = chat init_server (1 / 2)
         \<lparr>req_message = Some ''hi'', req_personaId = Some ''gym'',
          req_sessionId = Some ''session_2'',
          req_context = Some \<lparr>previousMessages = [], userPreferences = ''{}''\<rparr>\<rparr>"
  using chat_ignores_session_and_context
          [of "\<lparr>req_message = Some ''hi'', req_personaId = Some ''gym'',
                req_sessionId = Some ''session_1'', req_context = None\<rparr>"
              "\<lparr>req_message = Some ''hi'', req_personaId = Some ''gym'',
                req_sessionId = Some ''session_2'',
                req_context = Some \<lparr>previousMessages = [], userPreferences = ''{}''\<rparr>\<rparr>"
              init_server "1 / 2"]
  by simp

section \<open>Navigation\<close>

lemma planet_tutor_fields:
  "position planet_tutor = (4, 0, 0)"
  "traits planet_tutor =
     [trait_curious, trait_socratic, trait_visual_explanation, trait_mentorship]"
  by (simp_all add: planet_tutor_def)

lemma trait_ids:
  "trait_id trait_curious = ''curious''"
  "trait_id trait_socratic = ''socratic''"
  "trait_id trait_visual_explanation = ''visual-explanation''"
  "trait_id trait_mentorship = ''mentorship''"
  "trait_id trait_spartan_coach = ''spartan-coach''"
  by (simp_all add: trait_curious_def trait_socratic_def trait_visual_explanation_def
        trait_mentorship_def trait_spartan_coach_def)

lemma spartan_coach_not_of_tutor: "trait_spartan_coach \<notin> set (traits planet_tutor)"
proof
  assume "trait_spartan_coach \<in> set (traits planet_tutor)"
  then have "trait_id trait_spartan_coach \<in> trait_id ` set (traits planet_tutor)"
    by (rule imageI)
  then show False by (simp add: planet_tutor_fields trait_ids)
qed

lemma reachable_tutor: "reachable (handlePlanetClick planet_tutor initial_nav)"
proof -
  have "ui_step initial_nav (PlanetClick planet_tutor) (handlePlanetClick planet_tutor initial_nav)"
    by (rule planet_click) (simp_all add: initial_nav_def aiPersonas_App_def)
  with reachable_initial show ?thesis by (rule reachable_step)
qed

lemma planet_tutor_nodes:
  "length (traits planet_tutor) = 4" "traits planet_tutor ! 0 = trait_curious"
  by (simp_all add: planet_tutor_fields)

lemma traitNodePosition_first: "traitNodePosition 0 n = (2, 0, 0)"
  by (simp add: traitNodePosition_def)

lemma step_tutor_curious:
  "ui_step (handlePlanetClick planet_tutor initial_nav)
     (TraitClick trait_curious (traitNodePosition 0 4))
     (handleTraitClick trait_curious (traitNodePosition 0 4)
        (handlePlanetClick planet_tutor initial_nav))"
  by (rule trait_click [where p = planet_tutor and index = 0])
     (simp_all add: handlePlanetClick_def planet_tutor_nodes)

lemma reachable_tutor_curious:
  "reachable (handleTraitClick trait_curious (traitNodePosition 0 4)
                (handlePlanetClick planet_tutor initial_nav))"
  using reachable_tutor step_tutor_curious by (rule reachable_step)

text \<open>
  C2. The claim: `Back to Solar' leaves the stage \<open>solar\<close>, no persona, no trait and
  the target position \<open>(0, 0, 0)\<close>. The handler does not touch the target position:
  after the tutor's planet (at \<open>(4, 0, 0)\<close>) has been selected and left again, the
  target position is still \<open>(4, 0, 0)\<close>.
\<close>

theorem backToSolar_keeps_target_counterexample:
  "selectedPersona (handlePlanetClick planet_tutor initial_nav) = Some planet_tutor
   \<and> targetPosition (handleBackToSolar (handlePlanetClick planet_tutor initial_nav))
       \<noteq> (0, 0, 0)"
  by (simp add: handleBackToSolar_def handlePlanetClick_def planet_tutor_fields)

text \<open>
  C2, as the code has it. `Back to Solar' yields the stage \<open>solar\<close> with no persona
  and no trait selected and leaves the target position as it was; the point the camera
  controller looks at is \<open>(0, 0, 0)\<close> all the same, since in that stage it does not
  read the target position. Clicking a planet yields the stage \<open>planet\<close> with the
  planet's position as target position.
\<close>

theorem backToSolar_and_planet_click:
  "stage (handleBackToSolar s) = Solar
   \<and> selectedPersona (handleBackToSolar s) = None
   \<and> selectedTrait (handleBackToSolar s) = None
   \<and> targetPosition (handleBackToSolar s) = targetPosition s
   \<and> cameraLookAt (handleBackToSolar s) = (0, 0, 0)
   \<and> stage (handlePlanetClick p s) = Planet
   \<and> selectedPersona (handlePlanetClick p s) = Some p
   \<and> targetPosition (handlePlanetClick p s) = position p"
  by (simp add: handleBackToSolar_def handlePlanetClick_def cameraLookAt_def)

theorem backToSolar_and_planet_click_witness:
  "stage (handlePlanetClick planet_tutor initial_nav) = Planet
   \<and> targetPosition (handlePlanetClick planet_tutor initial_nav) = (4, 0, 0)
   \<and> stage (handleBackToSolar (handlePlanetClick planet_tutor initial_nav)) = Solar
   \<and> targetPosition (handleBackToSolar (handlePlanetClick planet_tutor initial_nav)) = (4, 0, 0)
   \<and> cameraLookAt (handleBackToSolar (handlePlanetClick planet_tutor initial_nav)) = (0, 0, 0)"
  using backToSolar_and_planet_click [of "handlePlanetClick planet_tutor initial_nav"]
        backToSolar_and_planet_click [of initial_nav planet_tutor]
  by (simp add: planet_tutor_fields)

text \<open>
  C3. The claim: selecting a trait that the focused persona does not have fails and
  leaves the state unchanged. The handler makes no such test: with the tutor focused,
  the trait \<open>spartan-coach\<close> of the gym persona is selected like any other.
\<close>

theorem foreign_trait_selected_counterexample:
  "selectedPersona (handlePlanetClick planet_tutor initial_nav) = Some planet_tutor
   \<and> trait_spartan_coach \<notin> set (traits planet_tutor)
   \<and> handleTraitClick trait_spartan_coach (1, 0, 0) (handlePlanetClick planet_tutor initial_nav)
       \<noteq> handlePlanetClick planet_tutor initial_nav
   \<and> stage (handleTraitClick trait_spartan_coach (1, 0, 0)
               (handlePlanetClick planet_tutor initial_nav)) = Trait
   \<and> selectedTrait (handleTraitClick trait_spartan_coach (1, 0, 0)
               (handlePlanetClick planet_tutor initial_nav)) = Some trait_spartan_coach"
proof -
  have "stage (handleTraitClick trait_spartan_coach (1, 0, 0)
          (handlePlanetClick planet_tutor initial_nav))
        \<noteq> stage (handlePlanetClick planet_tutor initial_nav)"
    by (simp add: handleTraitClick_def handlePlanetClick_def)
  then have "handleTraitClick trait_spartan_coach (1, 0, 0)
               (handlePlanetClick planet_tutor initial_nav)
             \<noteq> handlePlanetClick planet_tutor initial_nav"
    by metis
  then show ?thesis
    using spartan_coach_not_of_tutor
    by (simp add: handleTraitClick_def handlePlanetClick_def)
qed

text \<open>
  C3, as the code has it. The handler never fails and tests nothing: for every state,
  trait and position it yields the stage \<open>trait\<close> with that trait selected and that
  position as target, and keeps the selected persona and the chat panel as they were.
  That the trait belongs to the focused persona is a property of the page, not of the
  handler: a trait can be clicked only in stage \<open>planet\<close>, and only the selected
  persona's own traits are rendered.
\<close>

theorem trait_click_unchecked:
  "stage (handleTraitClick t pos s) = Trait
   \<and> selectedTrait (handleTraitClick t pos s) = Some t
   \<and> targetPosition (handleTraitClick t pos s) = pos
   \<and> selectedPersona (handleTraitClick t pos s) = selectedPersona s
   \<and> isChatOpen (handleTraitClick t pos s) = isChatOpen s
   \<and> (ui_step s (TraitClick t pos) s' \<longrightarrow>
        s' = handleTraitClick t pos s \<and> stage s = Planet \<and>
        (\<exists>p. selectedPersona s = Some p \<and> t \<in> set (traits p)))"
proof -
  have "s' = handleTraitClick t pos s \<and> stage s = Planet \<and>
        (\<exists>p. selectedPersona s = Some p \<and> t \<in> set (traits p))"
    if "ui_step s (TraitClick t pos) s'"
    using that by cases auto
  then show ?thesis by (simp add: handleTraitClick_def)
qed

theorem trait_click_unchecked_witness:
  "ui_step (handlePlanetClick planet_tutor initial_nav)
     (TraitClick trait_curious (traitNodePosition 0 4))
     (handleTraitClick trait_curious (traitNodePosition 0 4)
        (handlePlanetClick planet_tutor initial_nav))
   \<and> stage (handlePlanetClick planet_tutor initial_nav) = Planet
   \<and> (\<exists>p. selectedPersona (handlePlanetClick planet_tutor initial_nav) = Some p \<and>
           trait_curious \<in> set (traits p))
   \<and> stage (handleTraitClick trait_curious (traitNodePosition 0 4)
               (handlePlanetClick planet_tutor initial_nav)) = Trait"
  using step_tutor_curious
        trait_click_unchecked [of trait_curious "traitNodePosition 0 4"
          "handlePlanetClick planet_tutor initial_nav"
          "handleTraitClick trait_curious (traitNodePosition 0 4)
             (handlePlanetClick planet_tutor initial_nav)"]
  by simp

text \<open>
  C4. The claim: in every reachable state a trait is selected only in stage \<open>trait\<close>,
  and a persona is selected in every stage but \<open>solar\<close>. `Back to Persona' sets the
  stage only: after planet, trait, back, the stage is \<open>planet\<close> and the trait is
  still selected.
\<close>

theorem back_keeps_trait_counterexample:
  "reachable (backToPersona (handleTraitClick trait_curious (traitNodePosition 0 4)
                (handlePlanetClick planet_tutor initial_nav)))
   \<and> stage (backToPersona (handleTraitClick trait_curious (traitNodePosition 0 4)
                (handlePlanetClick planet_tutor initial_nav))) = Planet
   \<and> selectedTrait (backToPersona (handleTraitClick trait_curious (traitNodePosition 0 4)
                (handlePlanetClick planet_tutor initial_nav))) = Some trait_curious"
proof -
  let ?s = "handleTraitClick trait_curious (traitNodePosition 0 4)
              (handlePlanetClick planet_tutor initial_nav)"
  have "ui_step ?s BackToPersona (backToPersona ?s)"
    by (rule trait_back_to_persona [where t = trait_curious])
       (simp_all add: handleTraitClick_def)
  with reachable_tutor_curious have "reachable (backToPersona ?s)"
    by (rule reachable_step)
  then show ?thesis by (simp add: backToPersona_def handleTraitClick_def)
qed

text \<open>
  C4, as the code has it. In every reachable state: in stage \<open>solar\<close> neither a
  persona nor a trait is selected; in the other two stages a persona is selected; in
  stage \<open>trait\<close> a trait is selected; and a selected trait, which may also remain in
  stage \<open>planet\<close>, is one of the selected persona's traits.
\<close>

theorem reachable_focus:
  assumes "reachable s"
  shows "(stage s = Solar \<longrightarrow> selectedPersona s = None \<and> selectedTrait s = None) \<and>
         (stage s \<noteq> Solar \<longrightarrow> selectedPersona s \<noteq> None) \<and>
         (stage s = Trait \<longrightarrow> selectedTrait s \<noteq> None) \<and>
         (\<forall>t. selectedTrait s = Some t \<longrightarrow>
            (\<exists>p. selectedPersona s = Some p \<and> t \<in> set (traits p)))"
  using assms
proof (induction rule: reachable.induct)
  case reachable_initial
  show ?case by (simp add: initial_nav_def)
next
  case (reachable_step s e s')
  from reachable_step.hyps(2) show ?case
  proof cases
    case (planet_click p)
    with reachable_step.IH show ?thesis by (simp add: handlePlanetClick_def)
  next
    case (trait_click p index t pos)
    then show ?thesis by (simp add: handleTraitClick_def)
  next
    case (planet_back_to_solar p)
    then show ?thesis by (simp add: handleBackToSolar_def)
  next
    case (trait_back_to_persona t)
    with reachable_step.IH show ?thesis by (simp add: backToPersona_def)
  next
    case (trait_back_to_solar t)
    then show ?thesis by (simp add: handleBackToSolar_def)
  next
    case close_chat
    with reachable_step.IH show ?thesis by (simp add: closeChat_def)
  qed
qed

theorem reachable_focus_witness:
  "reachable (backToPersona (handleTraitClick trait_curious (traitNodePosition 0 4)
                (handlePlanetClick planet_tutor initial_nav)))
   \<and> selectedPersona (backToPersona (handleTraitClick trait_curious (traitNodePosition 0 4)
                (handlePlanetClick planet_tutor initial_nav))) = Some planet_tutor
   \<and> trait_curious \<in> set (traits planet_tutor)"
proof -
  let ?s = "handleTraitClick trait_curious (traitNodePosition 0 4)
              (handlePlanetClick planet_tutor initial_nav)"
  have "ui_step ?s BackToPersona (backToPersona ?s)"
    by (rule trait_back_to_persona [where t = trait_curious])
       (simp_all add: handleTraitClick_def)
  with reachable_tutor_curious have r: "reachable (backToPersona ?s)"
    by (rule reachable_step)
  from reachable_focus [OF r] r show ?thesis
    by (simp add: backToPersona_def handleTraitClick_def handlePlanetClick_def)
qed

end
